theory Spec2Isabelle
  imports Complex_Main
begin

section \<open>Data model (types.ts)\<close>

text \<open>
  A JavaScript string is modelled as a HOL \<open>string\<close>: one \<open>char\<close> per code unit, for
  strings whose code units all lie below 256 (ASCII and Latin-1). Strings with other
  code units are outside the model.
\<close>

datatype Category =
  Food | Transport | Shopping | Entertainment | Health | Utilities | Income
  | Education | Feira | Other

datatype Source = Manual | Revolut | Millennium | XLSX

text \<open>The \<open>type\<close> field of a transaction: \<open>'Expense' | 'Income'\<close>.\<close>

datatype TxType = TExpense | TIncome

text \<open>\<open>RuleType = 'exact' | 'starts_with'\<close>.\<close>

datatype RuleType = Exact | StartsWith

text \<open>
  A JavaScript number: NaN, the two infinities, or a finite value. Finite values are
  kept as exact rationals (the rounding of the mantissa to 53 bits is not modelled,
  and \<open>-0\<close> is \<open>0\<close>); overflow to an infinity and underflow to zero are modelled by
  \<open>js_round\<close> below.
\<close>

datatype jsnum = NaN | Fin rat | PosInf | NegInf

text \<open>
  A \<open>Date\<close> object. \<open>new Date(s)\<close> on a string is kept as the string it was built
  from. \<open>new Date(y, m, d)\<close> is a local calendar date, held by the components that
  \<open>getFullYear()\<close>, \<open>getMonth()\<close> (0 = January) and \<open>getDate()\<close> read back, or is
  an invalid date.
\<close>

datatype js_date = DateOfString string | LocalDate int int int | InvalidDate

text \<open>
  The fields \<open>id\<close> and \<open>type\<close> of the source are \<open>tx_id\<close>, \<open>tx_type\<close> (and
  \<open>rule_id\<close>, \<open>rule_type\<close>) here. An optional field is an \<open>option\<close>: \<open>None\<close> is
  \<open>undefined\<close>.
\<close>

record Transaction =
  tx_id :: string
  date :: js_date
  description :: string
  amount :: jsnum
  category :: Category
  source :: Source
  tx_type :: TxType
  ignored :: "bool option"

record AutoRule =
  rule_id :: string
  pattern :: string
  rule_type :: RuleType
  targetCategory :: "Category option"
  shouldIgnore :: "bool option"

section \<open>String operations of the JavaScript library\<close>

text \<open>
  \<open>String.prototype.toLowerCase\<close> on code units below 256: the letters A to Z and the
  Latin-1 capitals U+00C0 to U+00DE (without the multiplication sign U+00D7) move up
  by 32; every other character is its own lower case.
\<close>

definition lower_char :: "char \<Rightarrow> char" where
  "lower_char c =
     (let n = (of_char c :: nat)
      in if (65 \<le> n \<and> n \<le> 90) \<or> (192 \<le> n \<and> n \<le> 222 \<and> n \<noteq> 215)
         then char_of (n + 32) else c)"

definition toLowerCase :: "string \<Rightarrow> string" where
  "toLowerCase s = map lower_char s"

text \<open>\<open>s.startsWith(p)\<close>.\<close>

fun startsWith :: "string \<Rightarrow> string \<Rightarrow> bool" where
  "startsWith s [] = True"
| "startsWith [] (p # ps) = False"
| "startsWith (c # cs) (p # ps) = (c = p \<and> startsWith cs ps)"

text \<open>\<open>s.includes(k)\<close>: \<open>k\<close> occurs somewhere in \<open>s\<close>.\<close>

fun includesStr :: "string \<Rightarrow> string \<Rightarrow> bool" where
  "includesStr [] k = (k = [])"
| "includesStr (c # cs) k = (startsWith (c # cs) k \<or> includesStr cs k)"

text \<open>
  \<open>s.split(sep)\<close> with a separator of one character: the pieces between the
  separators, in order; a string without separator is one piece, also the empty string.
\<close>

fun split :: "string \<Rightarrow> char \<Rightarrow> string list" where
  "split [] sep = [[]]"
| "split (c # cs) sep =
     (if c = sep then [] # split cs sep
      else (case split cs sep of
              w # ws \<Rightarrow> (c # w) # ws
            | [] \<Rightarrow> [[c]]))"

text \<open>\<open>s.replace(a, b)\<close> with strings of one character: only the first \<open>a\<close> is replaced.\<close>

fun replace_first :: "char \<Rightarrow> char \<Rightarrow> string \<Rightarrow> string" where
  "replace_first a b [] = []"
| "replace_first a b (c # cs) = (if c = a then b # cs else c # replace_first a b cs)"

text \<open>\<open>s.replace(/"/g, '')\<close>: every double quote is removed.\<close>

definition strip_quotes :: "string \<Rightarrow> string" where
  "strip_quotes s = filter (\<lambda>c. c \<noteq> CHR 0x22) s"

text \<open>
  White space and line terminators of ECMAScript below 256: TAB, LF, VT, FF, CR, SP
  and the no-break space U+00A0.
\<close>

definition is_space :: "char \<Rightarrow> bool" where
  "is_space c = ((of_char c :: nat) \<in> {9, 10, 11, 12, 13, 32, 160})"

definition trimStart :: "string \<Rightarrow> string" where
  "trimStart s = dropWhile is_space s"

definition trim :: "string \<Rightarrow> string" where
  "trim s = rev (dropWhile is_space (rev (dropWhile is_space s)))"

text \<open>
  The decimal digits of a non-negative integer, as a template literal prints a number
  that is an integer below \<open>10^21\<close> (a line index, a clock reading in milliseconds).
\<close>

fun string_of_nat :: "nat \<Rightarrow> string" where
  "string_of_nat n =
     (if n < 10 then [char_of (48 + n)]
      else string_of_nat (n div 10) @ [char_of (48 + n mod 10)])"

declare string_of_nat.simps [simp del]

definition string_of_int :: "int \<Rightarrow> string" where
  "string_of_int i = (if i < 0 then CHR ''-'' # string_of_nat (nat (- i)) else string_of_nat (nat i))"

text \<open>\<open>xs[i]\<close> on an array: \<open>undefined\<close> (\<open>None\<close>) out of range.\<close>

definition at_index :: "'a list \<Rightarrow> nat \<Rightarrow> 'a option" where
  "at_index xs i = (if i < length xs then Some (xs ! i) else None)"

section \<open>Numbers of the JavaScript library\<close>

text \<open>
  Rounding a real value to a number: from \<open>2^1024 - 2^970\<close> on (the midpoint between
  the largest finite number and \<open>2^1024\<close>) the result is an infinity, up to \<open>2^-1075\<close>
  (the midpoint between zero and the smallest positive number) it is zero.
\<close>

definition js_round :: "rat \<Rightarrow> jsnum" where
  "js_round q =
     (if 2 ^ 1024 - 2 ^ 970 \<le> q then PosInf
      else if q \<le> - (2 ^ 1024 - 2 ^ 970) then NegInf
      else if \<bar>q\<bar> \<le> 1 / 2 ^ 1075 then Fin 0
      else Fin q)"

definition isNaN :: "jsnum \<Rightarrow> bool" where
  "isNaN x = (x = NaN)"

fun js_neg :: "jsnum \<Rightarrow> jsnum" where
  "js_neg NaN = NaN"
| "js_neg (Fin q) = Fin (- q)"
| "js_neg PosInf = NegInf"
| "js_neg NegInf = PosInf"

text \<open>\<open>Math.abs\<close>.\<close>

fun Math_abs :: "jsnum \<Rightarrow> jsnum" where
  "Math_abs NaN = NaN"
| "Math_abs (Fin q) = Fin \<bar>q\<bar>"
| "Math_abs PosInf = PosInf"
| "Math_abs NegInf = PosInf"

text \<open>\<open>x + y\<close> on numbers: NaN is absorbing, and so is the sum of opposite infinities.\<close>

fun js_add :: "jsnum \<Rightarrow> jsnum \<Rightarrow> jsnum" where
  "js_add NaN y = NaN"
| "js_add x NaN = NaN"
| "js_add PosInf NegInf = NaN"
| "js_add NegInf PosInf = NaN"
| "js_add PosInf y = PosInf"
| "js_add NegInf y = NegInf"
| "js_add (Fin a) PosInf = PosInf"
| "js_add (Fin a) NegInf = NegInf"
| "js_add (Fin a) (Fin b) = js_round (a + b)"

definition js_sub :: "jsnum \<Rightarrow> jsnum \<Rightarrow> jsnum" where
  "js_sub x y = js_add x (js_neg y)"

text \<open>\<open>x < y\<close> on numbers: false when either side is NaN.\<close>

fun js_less :: "jsnum \<Rightarrow> jsnum \<Rightarrow> bool" where
  "js_less NaN y = False"
| "js_less x NaN = False"
| "js_less PosInf y = False"
| "js_less NegInf NegInf = False"
| "js_less NegInf y = True"
| "js_less (Fin a) PosInf = True"
| "js_less (Fin a) NegInf = False"
| "js_less (Fin a) (Fin b) = (a < b)"

text \<open>\<open>x >= y\<close> on numbers: false when either side is NaN.\<close>

definition js_ge :: "jsnum \<Rightarrow> jsnum \<Rightarrow> bool" where
  "js_ge x y = (x \<noteq> NaN \<and> y \<noteq> NaN \<and> \<not> js_less x y)"

subsection \<open>Numeric literals in strings\<close>

definition is_digit :: "char \<Rightarrow> bool" where
  "is_digit c = (48 \<le> (of_char c :: nat) \<and> (of_char c :: nat) \<le> 57)"

text \<open>The value of a digit of a literal in base up to 16; \<open>None\<close> for any other character.\<close>

definition digit_value :: "char \<Rightarrow> nat option" where
  "digit_value c =
     (let n = (of_char c :: nat)
      in if 48 \<le> n \<and> n \<le> 57 then Some (n - 48)
         else if 97 \<le> n \<and> n \<le> 102 then Some (n - 87)
         else if 65 \<le> n \<and> n \<le> 70 then Some (n - 55)
         else None)"

text \<open>The value of a string of digits in a base; \<open>None\<close> if a character is no digit of it.\<close>

fun digits_value :: "nat \<Rightarrow> nat \<Rightarrow> string \<Rightarrow> nat option" where
  "digits_value base acc [] = Some acc"
| "digits_value base acc (c # cs) =
     (case digit_value c of
        None \<Rightarrow> None
      | Some d \<Rightarrow> (if d < base then digits_value base (base * acc + d) cs else None))"

definition decimal_value :: "string \<Rightarrow> nat" where
  "decimal_value ds = (case digits_value 10 0 ds of Some n \<Rightarrow> n | None \<Rightarrow> 0)"

text \<open>
  \<open>ExponentPart\<close>: \<open>e\<close> or \<open>E\<close>, an optional sign and at least one digit. The result is
  the exponent and the rest of the string; where no exponent part stands at the head
  of the string, the exponent is 0 and nothing is consumed.
\<close>

definition parse_exponent :: "string \<Rightarrow> int \<times> string" where
  "parse_exponent s =
     (case s of
        [] \<Rightarrow> (0, s)
      | c # r \<Rightarrow>
          (if c = CHR ''e'' \<or> c = CHR ''E'' then
             (let neg = (r \<noteq> [] \<and> hd r = CHR ''-'');
                  r1 = (if r \<noteq> [] \<and> (hd r = CHR ''+'' \<or> hd r = CHR ''-'') then tl r else r);
                  ds = takeWhile is_digit r1
              in if ds = [] then (0, s)
                 else ((if neg then - int (decimal_value ds) else int (decimal_value ds)),
                       dropWhile is_digit r1))
           else (0, s)))"

text \<open>The number \<open>m * 10^k\<close>.\<close>

definition scale10 :: "nat \<Rightarrow> int \<Rightarrow> jsnum" where
  "scale10 m k =
     js_round (if 0 \<le> k then rat_of_nat m * 10 ^ nat k else rat_of_nat m / 10 ^ nat (- k))"

text \<open>
  The longest prefix that is a \<open>StrUnsignedDecimalLiteral\<close>: \<open>Infinity\<close>, or digits
  with an optional fraction and an optional exponent part, or a fraction that starts
  with the point. The result is its value and the rest of the string; \<open>None\<close> when no
  prefix is such a literal.
\<close>

definition parse_unsigned :: "string \<Rightarrow> (jsnum \<times> string) option" where
  "parse_unsigned s =
     (if startsWith s ''Infinity'' then Some (PosInf, drop 8 s)
      else
        (let ip = takeWhile is_digit s; r1 = dropWhile is_digit s
         in if r1 \<noteq> [] \<and> hd r1 = CHR ''.'' then
              (let fp = takeWhile is_digit (tl r1); r2 = dropWhile is_digit (tl r1)
               in if ip = [] \<and> fp = [] then None
                  else (case parse_exponent r2 of
                          (e, r3) \<Rightarrow> Some (scale10 (decimal_value (ip @ fp)) (e - int (length fp)), r3)))
            else if ip = [] then None
            else (case parse_exponent r1 of
                    (e, r3) \<Rightarrow> Some (scale10 (decimal_value ip) e, r3))))"

text \<open>\<open>StrDecimalLiteral\<close>: an unsigned literal with an optional sign.\<close>

definition parse_decimal :: "string \<Rightarrow> (jsnum \<times> string) option" where
  "parse_decimal s =
     (if s \<noteq> [] \<and> hd s = CHR ''+'' then parse_unsigned (tl s)
      else if s \<noteq> [] \<and> hd s = CHR ''-'' then
        (case parse_unsigned (tl s) of
           None \<Rightarrow> None
         | Some (v, r) \<Rightarrow> Some (js_neg v, r))
      else parse_unsigned s)"

text \<open>
  \<open>parseFloat(s)\<close>: leading white space is dropped, the longest prefix that is a
  decimal literal gives the value, whatever follows it is ignored; NaN when there is no
  such prefix.
\<close>

definition parseFloat :: "string \<Rightarrow> jsnum" where
  "parseFloat s =
     (case parse_decimal (trimStart s) of
        None \<Rightarrow> NaN
      | Some (v, r) \<Rightarrow> v)"

text \<open>
  \<open>0x\<close>, \<open>0o\<close> and \<open>0b\<close> literals (\<open>NonDecimalIntegerLiteral\<close>): \<open>None\<close> when the
  string is none of them.
\<close>

definition parse_non_decimal :: "string \<Rightarrow> jsnum option" where
  "parse_non_decimal s =
     (if length s < 3 \<or> hd s \<noteq> CHR ''0'' then None
      else
        (let p = s ! 1;
             base = (if p = CHR ''x'' \<or> p = CHR ''X'' then 16
                     else if p = CHR ''o'' \<or> p = CHR ''O'' then 8
                     else if p = CHR ''b'' \<or> p = CHR ''B'' then 2
                     else 0 :: nat)
         in if base = 0 then None
            else (case digits_value base 0 (drop 2 s) of
                    None \<Rightarrow> None
                  | Some n \<Rightarrow> Some (js_round (rat_of_nat n)))))"

text \<open>
  \<open>Number(v)\<close> on a string or \<open>undefined\<close>: NaN for \<open>undefined\<close>; white space is
  dropped at both ends; the empty string is 0; otherwise the whole string has to be
  one numeric literal.
\<close>

definition Number :: "string option \<Rightarrow> jsnum" where
  "Number v =
     (case v of
        None \<Rightarrow> NaN
      | Some s \<Rightarrow>
          (let t = trim s
           in if t = [] then Fin 0
              else (case parse_non_decimal t of
                      Some n \<Rightarrow> n
                    | None \<Rightarrow>
                        (case parse_decimal t of
                           None \<Rightarrow> NaN
                         | Some (n, r) \<Rightarrow> (if r = [] then n else NaN)))))"

section \<open>The rule engine (applyRulesToTransaction)\<close>

text \<open>
  \<open>Object.entries(DEFAULT_CATEGORY_MAP)\<close>: none of the keys is an array index, so the
  entries come in the order in which the object literal lists them.
\<close>

definition DEFAULT_CATEGORY_MAP :: "(string \<times> Category) list" where
  "DEFAULT_CATEGORY_MAP =
    [(''uber'', Transport),
     (''bolt'', Transport),
     (''continente'', Food),
     (''pingo doce'', Food),
     (''lidl'', Food),
     (''auchan'', Food),
     (''netflix'', Entertainment),
     (''spotify'', Entertainment),
     (''amazon'', Shopping),
     (''zara'', Shopping),
     (''ikea'', Shopping),
     (''edp'', Utilities),
     (''galp'', Utilities),
     (''vodafone'', Utilities),
     (''salary'', Income),
     (''vencimento'', Income),
     (''refeicao'', Income)]"

text \<open>
  The test of the first loop: \<open>rule.type === 'exact' ? desc === pattern :
  desc.startsWith(pattern)\<close>, with \<open>pattern = rule.pattern.toLowerCase()\<close>.
\<close>

definition rule_matches :: "string \<Rightarrow> AutoRule \<Rightarrow> bool" where
  "rule_matches desc rule =
     (let pat = toLowerCase (pattern rule)
      in if rule_type rule = Exact then desc = pat else startsWith desc pat)"

text \<open>
  The object returned on a match. \<open>rule.targetCategory || tx.category\<close>: a category is
  a non-empty string, hence truthy, so the right operand is taken exactly when
  \<open>targetCategory\<close> is undefined.
\<close>

definition rule_result :: "Transaction \<Rightarrow> AutoRule \<Rightarrow> Transaction" where
  "rule_result tx rule =
     tx\<lparr>category := (case targetCategory rule of Some c \<Rightarrow> c | None \<Rightarrow> category tx),
        ignored := (case shouldIgnore rule of Some b \<Rightarrow> Some b | None \<Rightarrow> ignored tx)\<rparr>"

text \<open>The loop over the user's rules; \<open>None\<close> when it runs to its end without a return.\<close>

fun rules_loop :: "Transaction \<Rightarrow> string \<Rightarrow> AutoRule list \<Rightarrow> Transaction option" where
  "rules_loop tx desc [] = None"
| "rules_loop tx desc (rule # rules) =
     (if rule_matches desc rule then Some (rule_result tx rule)
      else rules_loop tx desc rules)"

text \<open>The loop over the entries of the default map.\<close>

fun default_loop :: "Transaction \<Rightarrow> string \<Rightarrow> (string \<times> Category) list \<Rightarrow> Transaction option" where
  "default_loop tx desc [] = None"
| "default_loop tx desc ((key, cat) # entries) =
     (if includesStr desc key then Some (tx\<lparr>category := cat\<rparr>)
      else default_loop tx desc entries)"

definition applyRulesToTransaction :: "Transaction \<Rightarrow> AutoRule list \<Rightarrow> Transaction" where
  "applyRulesToTransaction tx rules =
     (let desc = toLowerCase (description tx)
      in case rules_loop tx desc rules of
           Some r \<Rightarrow> r
         | None \<Rightarrow>
             (if category tx = Other
              then (case default_loop tx desc DEFAULT_CATEGORY_MAP of
                      Some r \<Rightarrow> r
                    | None \<Rightarrow> tx)
              else tx))"

section \<open>Dates of the JavaScript library\<close>

text \<open>\<open>ToIntegerOrInfinity\<close> on a finite number: rounding towards zero.\<close>

definition trunc :: "rat \<Rightarrow> int" where
  "trunc q = (if 0 \<le> q then \<lfloor>q\<rfloor> else \<lceil>q\<rceil>)"

text \<open>
  The day number (days since 1 January 1970) of day \<open>d\<close> of month \<open>m\<close> (1 to 12) of
  year \<open>y\<close> in the proleptic Gregorian calendar; \<open>d\<close> may lie outside the month.
\<close>

definition day_of_civil :: "int \<Rightarrow> int \<Rightarrow> int \<Rightarrow> int" where
  "day_of_civil y m d =
     (let y1 = (if m \<le> 2 then y - 1 else y);
          era = y1 div 400;
          yoe = y1 - era * 400;
          doy = (153 * (if 2 < m then m - 3 else m + 9) + 2) div 5 + d - 1;
          doe = yoe * 365 + yoe div 4 - yoe div 100 + doy
      in era * 146097 + doe - 719468)"

text \<open>The year, the month (1 to 12) and the day of the month of a day number.\<close>

definition civil_of_day :: "int \<Rightarrow> int \<times> int \<times> int" where
  "civil_of_day z =
     (let z1 = z + 719468;
          era = z1 div 146097;
          doe = z1 - era * 146097;
          yoe = (doe - doe div 1460 + doe div 36524 - doe div 146096) div 365;
          doy = doe - (365 * yoe + yoe div 4 - yoe div 100);
          mp = (5 * doy + 2) div 153;
          d = doy - (153 * mp + 2) div 5 + 1;
          m = (if mp < 10 then mp + 3 else mp - 9);
          y = yoe + era * 400
      in ((if m \<le> 2 then y + 1 else y), m, d))"

text \<open>
  \<open>new Date(year, month, day)\<close>: an argument that is not finite gives an invalid date;
  the arguments are truncated to integers; a year from 0 to 99 means 1900 to 1999;
  months outside 0 to 11 carry into the year and days outside the month carry into
  the neighbouring months (\<open>MakeDay\<close>); a date more than \<open>10^8\<close> days away from
  1 January 1970 is invalid (\<open>TimeClip\<close>). The date is a local one, at midnight; the
  offset of the time zone is no part of the model.
\<close>

definition new_Date :: "jsnum \<Rightarrow> jsnum \<Rightarrow> jsnum \<Rightarrow> js_date" where
  "new_Date year month day =
     (case (year, month, day) of
        (Fin y, Fin m, Fin d) \<Rightarrow>
          (let yi = trunc y;
               yr = (if 0 \<le> yi \<and> yi \<le> 99 then 1900 + yi else yi);
               mi = trunc m;
               ym = yr + mi div 12;
               mn = mi mod 12;
               dayno = day_of_civil ym (mn + 1) 1 + trunc d - 1
           in if 100000000 < \<bar>dayno\<bar> then InvalidDate
              else (case civil_of_day dayno of
                      (y', m', d') \<Rightarrow> LocalDate y' (m' - 1) d'))
      | _ \<Rightarrow> InvalidDate)"

section \<open>The extractors (parseRevolutCSV, parseMillenniumCSV)\<close>

text \<open>
  Both extractors read the clock (\<open>Date.now()\<close>) once for every transaction they
  push: \<open>now i\<close> is the reading taken while line \<open>i\<close> is processed.
\<close>

text \<open>
  The body of the loop of \<open>parseRevolutCSV\<close> for line \<open>i\<close>: \<open>None\<close> where the source
  says \<open>continue\<close>, otherwise the transaction that is pushed. \<open>cols[3] || cols[2]\<close>
  takes \<open>cols[2]\<close> exactly when \<open>cols[3]\<close> is the empty string.
\<close>

definition revolut_row :: "(nat \<Rightarrow> int) \<Rightarrow> nat \<Rightarrow> string \<Rightarrow> Transaction option" where
  "revolut_row now i line =
     (let cols = split line CHR '',''
      in if length cols < 6 then None
         else
           (let amt = parseFloat (cols ! 5);
                dateStr = (if cols ! 3 \<noteq> [] then cols ! 3 else cols ! 2);
                desc = strip_quotes (cols ! 4)
            in if isNaN amt then None
               else Some \<lparr>tx_id = ''rev-'' @ string_of_nat i @ ''-'' @ string_of_int (now i),
                          date = DateOfString dateStr,
                          description = desc,
                          amount = Math_abs amt,
                          category = Other,
                          source = Revolut,
                          tx_type = (if js_less amt (Fin 0) then TExpense else TIncome),
                          ignored = None\<rparr>))"

function revolut_loop ::
  "(nat \<Rightarrow> int) \<Rightarrow> string list \<Rightarrow> nat \<Rightarrow> Transaction list \<Rightarrow> Transaction list" where
  "revolut_loop now lines i transactions =
     (if i < length lines then
        (case revolut_row now i (lines ! i) of
           None \<Rightarrow> revolut_loop now lines (i + 1) transactions
         | Some t \<Rightarrow> revolut_loop now lines (i + 1) (transactions @ [t]))
      else transactions)"
  by pat_completeness auto
termination
  by (relation "measure (\<lambda>(now, lines, i, transactions). length lines - i)") auto

declare revolut_loop.simps [simp del]

definition parseRevolutCSV :: "(nat \<Rightarrow> int) \<Rightarrow> string \<Rightarrow> Transaction list" where
  "parseRevolutCSV now text = revolut_loop now (split text CHR 0x0A) 1 []"

text \<open>\<open>s || '0'\<close> on a string: \<open>'0'\<close> exactly when \<open>s\<close> is empty.\<close>

definition or_zero :: "string \<Rightarrow> string" where
  "or_zero s = (if s = [] then ''0'' else s)"

text \<open>
  The body of the loop of \<open>parseMillenniumCSV\<close> for line \<open>i\<close>. After the check of
  the length, \<open>cols[3]\<close> and \<open>cols[4]\<close> are strings, so \<open>?.\<close> always calls \<open>replace\<close>.
  The destructuring of \<open>dateStr.split('-')\<close> leaves \<open>month\<close> and \<open>year\<close> undefined when
  there are fewer than three pieces.
\<close>

definition millennium_row :: "(nat \<Rightarrow> int) \<Rightarrow> nat \<Rightarrow> string \<Rightarrow> Transaction option" where
  "millennium_row now i line =
     (let cols = split line CHR '';''
      in if length cols < 5 then None
         else
           (let dateStr = cols ! 0;
                desc = cols ! 2;
                debit = parseFloat (or_zero (replace_first CHR '','' CHR ''.'' (cols ! 3)));
                credit = parseFloat (or_zero (replace_first CHR '','' CHR ''.'' (cols ! 4)))
            in if dateStr = [] \<or> isNaN (js_add debit credit) then None
               else
                 (let parts = split dateStr CHR ''-'';
                      day = at_index parts 0;
                      month = at_index parts 1;
                      year = at_index parts 2;
                      d = new_Date (Number year) (js_sub (Number month) (Fin 1)) (Number day)
                  in Some \<lparr>tx_id = ''mil-'' @ string_of_nat i @ ''-'' @ string_of_int (now i),
                             date = d,
                             description = desc,
                             amount = (if js_less (Fin 0) debit then debit else credit),
                             category = Other,
                             source = Millennium,
                             tx_type = (if js_less (Fin 0) debit then TExpense else TIncome),
                             ignored = None\<rparr>)))"

function millennium_loop ::
  "(nat \<Rightarrow> int) \<Rightarrow> string list \<Rightarrow> nat \<Rightarrow> Transaction list \<Rightarrow> Transaction list" where
  "millennium_loop now lines i transactions =
     (if i < length lines then
        (case millennium_row now i (lines ! i) of
           None \<Rightarrow> millennium_loop now lines (i + 1) transactions
         | Some t \<Rightarrow> millennium_loop now lines (i + 1) (transactions @ [t]))
      else transactions)"
  by pat_completeness auto
termination
  by (relation "measure (\<lambda>(now, lines, i, transactions). length lines - i)") auto

declare millennium_loop.simps [simp del]

definition parseMillenniumCSV :: "(nat \<Rightarrow> int) \<Rightarrow> string \<Rightarrow> Transaction list" where
  "parseMillenniumCSV now text = millennium_loop now (split text CHR 0x0A) 1 []"

text \<open>A clock that stands still at \<open>t\<close>.\<close>

definition still_clock :: "int \<Rightarrow> nat \<Rightarrow> int" where
  "still_clock t i = t"

section \<open>Sample inputs\<close>

definition uber_tx :: Transaction where
  "uber_tx =
     \<lparr>tx_id = ''man-1'', date = LocalDate 2024 0 5, description = ''Uber Trip'',
      amount = Fin 7.5, category = Other, source = Manual, tx_type = TExpense,
      ignored = None\<rparr>"

definition netflix_exact :: AutoRule where
  "netflix_exact =
     \<lparr>rule_id = ''r1'', pattern = ''netflix'', rule_type = Exact,
      targetCategory = Some Entertainment, shouldIgnore = None\<rparr>"

definition uber_ignore :: AutoRule where
  "uber_ignore =
     \<lparr>rule_id = ''r2'', pattern = ''UBER'', rule_type = StartsWith,
      targetCategory = None, shouldIgnore = Some True\<rparr>"

definition uber_food :: AutoRule where
  "uber_food =
     \<lparr>rule_id = ''r3'', pattern = ''Uber trip'', rule_type = Exact,
      targetCategory = Some Food, shouldIgnore = None\<rparr>"

definition catch_all :: AutoRule where
  "catch_all =
     \<lparr>rule_id = ''r4'', pattern = [], rule_type = StartsWith,
      targetCategory = Some Feira, shouldIgnore = None\<rparr>"

definition millennium_header :: string where
  "millennium_header = ''Data;Data valor;Descricao;Debito;Credito''"

definition pingo_row :: string where
  "pingo_row = ''05-01-2024;;Pingo Doce;12,50;''"

definition pingo_tx :: "string \<Rightarrow> Transaction" where
  "pingo_tx ident =
     \<lparr>tx_id = ident, date = LocalDate 2024 0 5, description = ''Pingo Doce'',
      amount = Fin 12.5, category = Other, source = Millennium, tx_type = TExpense,
      ignored = None\<rparr>"

definition refund_row :: string where
  "refund_row = ''05-01-2024;;Refund;;-5,00''"

definition bad_debit_row :: string where
  "bad_debit_row = ''05-01-2024;;X;abc;5,00''"

definition revolut_header :: string where
  "revolut_header = ''Type,Product,Started Date,Completed Date,Description,Amount''"

definition pending_row :: string where
  "pending_row = ''CARD_PAYMENT,Current,2024-01-05,,Desc,-7.50''"

definition pending_tx :: Transaction where
  "pending_tx =
     \<lparr>tx_id = ''rev-1-0'', date = DateOfString ''2024-01-05'', description = ''Desc'',
      amount = Fin 7.5, category = Other, source = Revolut, tx_type = TExpense,
      ignored = None\<rparr>"

definition first_row :: string where
  "first_row = ''CARD_PAYMENT,Current,2024-01-04,2024-01-04,First,-1.00''"

definition second_row :: string where
  "second_row = ''CARD_PAYMENT,Current,2024-01-05,2024-01-06,Second,-2.00''"

definition second_tx :: Transaction where
  "second_tx =
     \<lparr>tx_id = ''rev-1-0'', date = DateOfString ''2024-01-06'', description = ''Second'',
      amount = Fin 2, category = Other, source = Revolut, tx_type = TExpense,
      ignored = None\<rparr>"

section \<open>Properties of the string operations\<close>

lemma startsWith_iff: "startsWith s p \<longleftrightarrow> (\<exists>r. s = p @ r)"
  by (induction s p rule: startsWith.induct) auto

lemma includesStr_iff: "includesStr s k \<longleftrightarrow> (\<exists>u v. s = u @ k @ v)"
proof (induction s)
  case Nil
  then show ?case by simp
next
  case (Cons c cs)
  show ?case
  proof
    assume "includesStr (c # cs) k"
    then consider "startsWith (c # cs) k" | "includesStr cs k" by auto
    then show "\<exists>u v. c # cs = u @ k @ v"
    proof cases
      case 1
      then obtain r where "c # cs = k @ r" by (auto simp: startsWith_iff)
      then have "c # cs = [] @ k @ r" by simp
      then show ?thesis by blast
    next
      case 2
      then obtain u v where "cs = u @ k @ v" using Cons.IH by blast
      then have "c # cs = (c # u) @ k @ v" by simp
      then show ?thesis by blast
    qed
  next
    assume "\<exists>u v. c # cs = u @ k @ v"
    then obtain u v where uv: "c # cs = u @ k @ v" by blast
    show "includesStr (c # cs) k"
    proof (cases u)
      case Nil
      with uv have "startsWith (c # cs) k" by (auto simp: startsWith_iff)
      then show ?thesis by simp
    next
      case (Cons a u')
      with uv have "cs = u' @ k @ v" by simp
      then have "includesStr cs k" using Cons.IH by blast
      then show ?thesis by simp
    qed
  qed
qed

lemma toLowerCase_Nil: "toLowerCase [] = []"
  by (simp add: toLowerCase_def)

lemmas char_eval = toLowerCase_def lower_char_def char_of_def bit_Suc_0_iff

section \<open>Properties of the rule engine\<close>

lemma rules_loop_find:
  "rules_loop tx desc rules = map_option (rule_result tx) (find (rule_matches desc) rules)"
  by (induction rules) auto

lemma default_loop_find:
  "default_loop tx desc entries =
     map_option (\<lambda>e. tx\<lparr>category := snd e\<rparr>) (find (\<lambda>e. includesStr desc (fst e)) entries)"
  by (induction entries) auto

lemma rules_loop_no_match:
  "\<forall>r\<in>set rules. \<not> rule_matches desc r \<Longrightarrow> rules_loop tx desc rules = None"
  by (induction rules) auto

lemma rules_loop_first_match:
  "\<forall>r\<in>set earlier. \<not> rule_matches desc r \<Longrightarrow> rule_matches desc rule \<Longrightarrow>
   rules_loop tx desc (earlier @ rule # later) = Some (rule_result tx rule)"
  by (induction earlier) auto

lemma default_loop_first_entry:
  "\<forall>e\<in>set before. \<not> includesStr desc (fst e) \<Longrightarrow> includesStr desc key \<Longrightarrow>
   default_loop tx desc (before @ (key, cat) # after) = Some (tx\<lparr>category := cat\<rparr>)"
  by (induction before) auto

lemma default_loop_ignored:
  "default_loop tx desc entries = Some r \<Longrightarrow> ignored r = ignored tx"
  by (induction entries) (auto split: if_splits)

lemma rule_result_twice: "rule_result (rule_result tx r) r = rule_result tx r"
  by (cases "targetCategory r"; cases "shouldIgnore r") (simp_all add: rule_result_def)

lemma description_rule_result: "description (rule_result tx r) = description tx"
  by (simp add: rule_result_def)

text \<open>
  C2: the rules are scanned in list order; the first rule whose lower-cased pattern
  matches the lower-cased description (equality for \<open>exact\<close>, starts-with otherwise)
  decides the result: the transaction with the rule's category (if it has one) and the
  rule's ignore flag (if it has one). The rules after it and the keyword map play no
  part, also when the rule has no target category.
\<close>

theorem first_matching_rule_wins:
  assumes "\<forall>r\<in>set earlier. \<not> rule_matches (toLowerCase (description tx)) r"
    and "rule_matches (toLowerCase (description tx)) rule"
  shows "applyRulesToTransaction tx (earlier @ rule # later) =
           tx\<lparr>category := (case targetCategory rule of Some c \<Rightarrow> c | None \<Rightarrow> category tx),
              ignored := (case shouldIgnore rule of Some b \<Rightarrow> Some b | None \<Rightarrow> ignored tx)\<rparr>"
  using assms
  by (simp add: applyRulesToTransaction_def rules_loop_first_match rule_result_def)

theorem first_matching_rule_wins_witness:
  "\<not> rule_matches (toLowerCase (description uber_tx)) netflix_exact
   \<and> rule_matches (toLowerCase (description uber_tx)) uber_ignore
   \<and> rule_matches (toLowerCase (description uber_tx)) uber_food
   \<and> includesStr (toLowerCase (description uber_tx)) ''uber''
   \<and> applyRulesToTransaction uber_tx [netflix_exact, uber_ignore, uber_food] =
       uber_tx\<lparr>ignored := Some True\<rparr>"
proof -
  have h1: "\<forall>r\<in>set [netflix_exact]. \<not> rule_matches (toLowerCase (description uber_tx)) r"
    by (simp add: rule_matches_def uber_tx_def netflix_exact_def char_eval)
  have h2: "rule_matches (toLowerCase (description uber_tx)) uber_ignore"
    by (simp add: rule_matches_def uber_tx_def uber_ignore_def char_eval)
  have h3: "rule_matches (toLowerCase (description uber_tx)) uber_food"
    by (simp add: rule_matches_def uber_tx_def uber_food_def char_eval)
  have h4: "includesStr (toLowerCase (description uber_tx)) ''uber''"
    by (simp add: uber_tx_def char_eval)
  have "applyRulesToTransaction uber_tx ([netflix_exact] @ uber_ignore # [uber_food]) =
          uber_tx\<lparr>ignored := Some True\<rparr>"
    using first_matching_rule_wins [OF h1 h2, of "[uber_food]"]
    by (simp add: uber_ignore_def uber_tx_def)
  with h1 h2 h3 h4 show ?thesis by simp
qed

text \<open>
  C3: when no user rule matches, a transaction whose category is not \<open>Other\<close> is
  returned unchanged, whatever its description contains; for a transaction of category
  \<open>Other\<close> the first entry of the default map whose keyword occurs in the lower-cased
  description gives the category; the \<open>ignored\<close> field stays as it was.
\<close>

theorem keyword_fallback:
  assumes "\<forall>r\<in>set rules. \<not> rule_matches (toLowerCase (description tx)) r"
  shows "(category tx \<noteq> Other \<longrightarrow> applyRulesToTransaction tx rules = tx)
       \<and> (\<forall>before key cat after.
             category tx = Other
             \<and> DEFAULT_CATEGORY_MAP = before @ (key, cat) # after
             \<and> (\<forall>e\<in>set before. \<not> includesStr (toLowerCase (description tx)) (fst e))
             \<and> includesStr (toLowerCase (description tx)) key
             \<longrightarrow> applyRulesToTransaction tx rules = tx\<lparr>category := cat\<rparr>)
       \<and> ignored (applyRulesToTransaction tx rules) = ignored tx"
proof -
  let ?desc = "toLowerCase (description tx)"
  have none: "rules_loop tx ?desc rules = None"
    using assms by (rule rules_loop_no_match)
  have a: "category tx \<noteq> Other \<longrightarrow> applyRulesToTransaction tx rules = tx"
    by (simp add: applyRulesToTransaction_def none)
  have b: "applyRulesToTransaction tx rules = tx\<lparr>category := cat\<rparr>"
    if "category tx = Other" "DEFAULT_CATEGORY_MAP = before @ (key, cat) # after"
      "\<forall>e\<in>set before. \<not> includesStr ?desc (fst e)" "includesStr ?desc key"
    for before key cat after
  proof -
    have "default_loop tx ?desc DEFAULT_CATEGORY_MAP = Some (tx\<lparr>category := cat\<rparr>)"
      unfolding that(2) by (rule default_loop_first_entry [OF that(3) that(4)])
    with that(1) show ?thesis
      by (simp add: applyRulesToTransaction_def none)
  qed
  have c: "ignored (applyRulesToTransaction tx rules) = ignored tx"
    by (auto simp: applyRulesToTransaction_def none default_loop_ignored split: option.splits)
  from a b c show ?thesis by blast
qed

theorem keyword_fallback_witness:
  "\<not> rule_matches (toLowerCase (description uber_tx)) netflix_exact
   \<and> DEFAULT_CATEGORY_MAP = [] @ (''uber'', Transport) # tl DEFAULT_CATEGORY_MAP
   \<and> includesStr (toLowerCase (description uber_tx)) ''uber''
   \<and> applyRulesToTransaction uber_tx [netflix_exact] = uber_tx\<lparr>category := Transport\<rparr>
   \<and> applyRulesToTransaction (uber_tx\<lparr>category := Health\<rparr>) [netflix_exact] =
       uber_tx\<lparr>category := Health\<rparr>
   \<and> ignored (applyRulesToTransaction uber_tx [netflix_exact]) = None"
proof -
  have h1: "\<forall>r\<in>set [netflix_exact]. \<not> rule_matches (toLowerCase (description uber_tx)) r"
    by (simp add: rule_matches_def uber_tx_def netflix_exact_def char_eval)
  have h1': "\<forall>r\<in>set [netflix_exact].
      \<not> rule_matches (toLowerCase (description (uber_tx\<lparr>category := Health\<rparr>))) r"
    using h1 by simp
  have h2: "DEFAULT_CATEGORY_MAP = [] @ (''uber'', Transport) # tl DEFAULT_CATEGORY_MAP"
    by (simp add: DEFAULT_CATEGORY_MAP_def)
  have h3: "includesStr (toLowerCase (description uber_tx)) ''uber''"
    by (simp add: uber_tx_def char_eval)
  have h4: "category uber_tx = Other"
    by (simp add: uber_tx_def)
  have h5: "category (uber_tx\<lparr>category := Health\<rparr>) \<noteq> Other"
    by simp
  have r1: "applyRulesToTransaction uber_tx [netflix_exact] = uber_tx\<lparr>category := Transport\<rparr>"
    using keyword_fallback [OF h1] h2 h3 h4 by fastforce
  have r2: "applyRulesToTransaction (uber_tx\<lparr>category := Health\<rparr>) [netflix_exact] =
      uber_tx\<lparr>category := Health\<rparr>"
    using keyword_fallback [OF h1'] h5 by blast
  have r3: "ignored (applyRulesToTransaction uber_tx [netflix_exact]) = None"
    using keyword_fallback [OF h1] by (simp add: uber_tx_def)
  from h1 h2 h3 r1 r2 r3 show ?thesis by simp
qed

text \<open>
  C6: classifying twice with the same rules gives what classifying once gives.
\<close>

theorem applyRulesToTransaction_idempotent:
  "applyRulesToTransaction (applyRulesToTransaction tx rules) rules =
     applyRulesToTransaction tx rules"
proof (cases "find (rule_matches (toLowerCase (description tx))) rules")
  case (Some r)
  then show ?thesis
    by (simp add: applyRulesToTransaction_def rules_loop_find description_rule_result
        rule_result_twice)
next
  case None
  show ?thesis
  proof (cases "category tx = Other")
    case False
    with None show ?thesis
      by (simp add: applyRulesToTransaction_def rules_loop_find)
  next
    case True
    show ?thesis
    proof (cases "find (\<lambda>e. includesStr (toLowerCase (description tx)) (fst e)) DEFAULT_CATEGORY_MAP")
      case None
      with \<open>find (rule_matches (toLowerCase (description tx))) rules = None\<close> True
      show ?thesis
        by (simp add: applyRulesToTransaction_def rules_loop_find default_loop_find)
    next
      case (Some e)
      with \<open>find (rule_matches (toLowerCase (description tx))) rules = None\<close> True
      show ?thesis
        by (simp add: applyRulesToTransaction_def rules_loop_find default_loop_find)
    qed
  qed
qed

text \<open>
  C7: a rule with the empty pattern and the starts-with mode matches every
  description: standing first in the list, it decides the result for every
  transaction, and neither the rules after it nor the keyword map are consulted.
\<close>

theorem empty_prefix_rule_matches_all:
  assumes "pattern rule = []" and "rule_type rule = StartsWith"
  shows "rule_matches (toLowerCase (description tx)) rule
       \<and> applyRulesToTransaction tx (rule # later) =
           tx\<lparr>category := (case targetCategory rule of Some c \<Rightarrow> c | None \<Rightarrow> category tx),
              ignored := (case shouldIgnore rule of Some b \<Rightarrow> Some b | None \<Rightarrow> ignored tx)\<rparr>"
  using assms
  by (simp add: applyRulesToTransaction_def rule_matches_def rule_result_def toLowerCase_Nil)

theorem empty_prefix_rule_matches_all_witness:
  "pattern catch_all = [] \<and> rule_type catch_all = StartsWith
   \<and> applyRulesToTransaction uber_tx [catch_all, uber_ignore] = uber_tx\<lparr>category := Feira\<rparr>"
proof -
  have h1: "pattern catch_all = []" and h2: "rule_type catch_all = StartsWith"
    by (simp_all add: catch_all_def)
  have "applyRulesToTransaction uber_tx [catch_all, uber_ignore] = uber_tx\<lparr>category := Feira\<rparr>"
    using empty_prefix_rule_matches_all [OF h1 h2, of uber_tx "[uber_ignore]"]
    by (simp add: catch_all_def uber_tx_def)
  with h1 h2 show ?thesis by simp
qed

text \<open>
  C9: the rule engine changes at most the category and the \<open>ignored\<close> field: the id,
  the date, the description, the amount, the source and the type of the result are
  those of the input.
\<close>

theorem applyRulesToTransaction_frame:
  "tx_id (applyRulesToTransaction tx rules) = tx_id tx
   \<and> date (applyRulesToTransaction tx rules) = date tx
   \<and> description (applyRulesToTransaction tx rules) = description tx
   \<and> amount (applyRulesToTransaction tx rules) = amount tx
   \<and> source (applyRulesToTransaction tx rules) = source tx
   \<and> tx_type (applyRulesToTransaction tx rules) = tx_type tx"
  by (auto simp: applyRulesToTransaction_def rules_loop_find default_loop_find rule_result_def
      Let_def split: option.splits)

section \<open>Properties of the extractors\<close>

lemmas num_defs = parseFloat_def parse_decimal_def parse_unsigned_def parse_exponent_def
  scale10_def decimal_value_def digit_value_def is_digit_def is_space_def trimStart_def trim_def
  js_round_def Number_def parse_non_decimal_def

lemmas row_defs = or_zero_def at_index_def isNaN_def js_sub_def strip_quotes_def

lemma split_not_Nil: "split s sep \<noteq> []"
  by (induction s) (auto split: list.splits)

lemma split_append_sep: "sep \<notin> set a \<Longrightarrow> split (a @ sep # b) sep = a # split b sep"
  by (induction a) (auto split: list.splits simp: split_not_Nil)

lemma split_no_sep: "sep \<notin> set a \<Longrightarrow> split a sep = [a]"
  by (induction a) (auto split: list.splits)

lemma revolut_loop_rows:
  "revolut_loop now lines i acc =
     acc @ List.map_filter (\<lambda>j. revolut_row now j (lines ! j)) [i..<length lines]"
proof (induction now lines i acc rule: revolut_loop.induct)
  case (1 now lines i transactions)
  show ?case
  proof (cases "i < length lines")
    case False
    then show ?thesis
      by (simp add: revolut_loop.simps [of now lines i transactions] map_filter_simps)
  next
    case True
    then have upt: "[i..<length lines] = i # [i + 1..<length lines]"
      by (simp add: upt_conv_Cons)
    show ?thesis
    proof (cases "revolut_row now i (lines ! i)")
      case None
      with True 1(1) show ?thesis
        by (simp add: revolut_loop.simps [of now lines i transactions] upt map_filter_simps)
    next
      case (Some t)
      with True 1(2) show ?thesis
        by (simp add: revolut_loop.simps [of now lines i transactions] upt map_filter_simps)
    qed
  qed
qed

lemma millennium_loop_rows:
  "millennium_loop now lines i acc =
     acc @ List.map_filter (\<lambda>j. millennium_row now j (lines ! j)) [i..<length lines]"
proof (induction now lines i acc rule: millennium_loop.induct)
  case (1 now lines i transactions)
  show ?case
  proof (cases "i < length lines")
    case False
    then show ?thesis
      by (simp add: millennium_loop.simps [of now lines i transactions] map_filter_simps)
  next
    case True
    then have upt: "[i..<length lines] = i # [i + 1..<length lines]"
      by (simp add: upt_conv_Cons)
    show ?thesis
    proof (cases "millennium_row now i (lines ! i)")
      case None
      with True 1(1) show ?thesis
        by (simp add: millennium_loop.simps [of now lines i transactions] upt map_filter_simps)
    next
      case (Some t)
      with True 1(2) show ?thesis
        by (simp add: millennium_loop.simps [of now lines i transactions] upt map_filter_simps)
    qed
  qed
qed

text \<open>
  The output of an extractor is made of the rows that the body of its loop accepts,
  in the order of the lines, from line 1 on.
\<close>

lemma parseRevolutCSV_rows:
  "parseRevolutCSV now text =
     List.map_filter (\<lambda>j. revolut_row now j (split text CHR 0x0A ! j))
       [1..<length (split text CHR 0x0A)]"
  by (simp add: parseRevolutCSV_def revolut_loop_rows)

lemma parseMillenniumCSV_rows:
  "parseMillenniumCSV now text =
     List.map_filter (\<lambda>j. millennium_row now j (split text CHR 0x0A ! j))
       [1..<length (split text CHR 0x0A)]"
  by (simp add: parseMillenniumCSV_def millennium_loop_rows)

lemma rows_after_first:
  "lines \<noteq> [] \<Longrightarrow>
   List.map_filter (\<lambda>j. row j (lines ! j)) [1..<length lines] =
   List.map_filter (\<lambda>j. row (Suc j) (tl lines ! j)) [0..<length (tl lines)]"
proof -
  assume "lines \<noteq> []"
  then obtain l ls where l: "lines = l # ls" by (cases lines) auto
  have e: "[1..<length lines] = map Suc [0..<length ls]"
    using map_Suc_upt [of 0 "length ls"] by (simp add: l del: upt_Suc)
  have "List.map_filter (\<lambda>j. row j (lines ! j)) (map Suc [0..<length ls]) =
        List.map_filter (\<lambda>j. row (Suc j) (ls ! j)) [0..<length ls]"
    by (simp add: l map_filter_def filter_map comp_def del: upt_Suc)
  with e show ?thesis by (simp add: l)
qed

text \<open>A text of two lines: only the second line is a row.\<close>

lemma parseRevolutCSV_two_lines:
  assumes "CHR 0x0A \<notin> set l0" and "CHR 0x0A \<notin> set l1"
  shows "parseRevolutCSV now (l0 @ CHR 0x0A # l1) =
           (case revolut_row now (Suc 0) l1 of None \<Rightarrow> [] | Some t \<Rightarrow> [t])"
proof -
  have "split (l0 @ CHR 0x0A # l1) CHR 0x0A = [l0, l1]"
    using assms by (simp add: split_append_sep split_no_sep)
  then show ?thesis
    by (simp add: parseRevolutCSV_rows map_filter_simps split: option.splits)
qed

lemma parseMillenniumCSV_two_lines:
  assumes "CHR 0x0A \<notin> set l0" and "CHR 0x0A \<notin> set l1"
  shows "parseMillenniumCSV now (l0 @ CHR 0x0A # l1) =
           (case millennium_row now (Suc 0) l1 of None \<Rightarrow> [] | Some t \<Rightarrow> [t])"
proof -
  have "split (l0 @ CHR 0x0A # l1) CHR 0x0A = [l0, l1]"
    using assms by (simp add: split_append_sep split_no_sep)
  then show ?thesis
    by (simp add: parseMillenniumCSV_rows map_filter_simps split: option.splits)
qed

text \<open>The sample rows, evaluated.\<close>

lemma millennium_row_pingo:
  "millennium_row now i pingo_row =
     Some (pingo_tx (''mil-'' @ string_of_nat i @ ''-'' @ string_of_int (now i)))"
  unfolding millennium_row_def new_Date_def trunc_def day_of_civil_def civil_of_day_def
    Let_def pingo_row_def pingo_tx_def
  by (simp add: num_defs row_defs)

lemma millennium_row_refund:
  "millennium_row now i refund_row =
     Some \<lparr>tx_id = ''mil-'' @ string_of_nat i @ ''-'' @ string_of_int (now i),
            date = LocalDate 2024 0 5, description = ''Refund'', amount = Fin (- 5),
            category = Other, source = Millennium, tx_type = TIncome, ignored = None\<rparr>"
  unfolding millennium_row_def new_Date_def trunc_def day_of_civil_def civil_of_day_def
    Let_def refund_row_def
  by (simp add: num_defs row_defs)

lemma millennium_row_bad_debit: "millennium_row now i bad_debit_row = None"
  unfolding millennium_row_def Let_def bad_debit_row_def
  by (simp add: num_defs row_defs)

lemma revolut_row_pending:
  "revolut_row now i pending_row =
     Some (pending_tx\<lparr>tx_id := ''rev-'' @ string_of_nat i @ ''-'' @ string_of_int (now i)\<rparr>)"
  unfolding revolut_row_def Let_def pending_row_def pending_tx_def
  by (simp add: num_defs row_defs)

lemma revolut_row_second:
  "revolut_row now i second_row =
     Some (second_tx\<lparr>tx_id := ''rev-'' @ string_of_nat i @ ''-'' @ string_of_int (now i)\<rparr>)"
  unfolding revolut_row_def Let_def second_row_def second_tx_def
  by (simp add: num_defs row_defs)

lemma revolut_row_first:
  "revolut_row now i first_row =
     Some \<lparr>tx_id = ''rev-'' @ string_of_nat i @ ''-'' @ string_of_int (now i),
            date = DateOfString ''2024-01-04'', description = ''First'', amount = Fin 1,
            category = Other, source = Revolut, tx_type = TExpense, ignored = None\<rparr>"
  unfolding revolut_row_def Let_def first_row_def
  by (simp add: num_defs row_defs)

lemma string_of_nat_Suc_0: "string_of_nat (Suc 0) = ''1''"
  by (simp add: string_of_nat.simps char_of_def bit_Suc_0_iff)

lemma no_LF_samples:
  "CHR 0x0A \<notin> set millennium_header" "CHR 0x0A \<notin> set pingo_row"
  "CHR 0x0A \<notin> set refund_row" "CHR 0x0A \<notin> set bad_debit_row"
  "CHR 0x0A \<notin> set revolut_header" "CHR 0x0A \<notin> set pending_row"
  "CHR 0x0A \<notin> set first_row" "CHR 0x0A \<notin> set second_row"
  by (simp_all add: millennium_header_def pingo_row_def refund_row_def bad_debit_row_def
      revolut_header_def pending_row_def first_row_def second_row_def)

lemma string_of_int_0: "string_of_int 0 = ''0''"
  by (simp add: string_of_int_def string_of_nat.simps char_of_def bit_Suc_0_iff)

lemma Math_abs_nonneg: "x \<noteq> NaN \<Longrightarrow> js_ge (Math_abs x) (Fin 0)"
  by (cases x) (simp_all add: js_ge_def)

text \<open>
  The Revolut extractor stores the magnitude of the amount: every amount it produces
  is at least 0.
\<close>

lemma revolut_amount_nonneg:
  assumes "t \<in> set (parseRevolutCSV now text)"
  shows "js_ge (amount t) (Fin 0)"
proof -
  from assms obtain j where "revolut_row now j (split text CHR 0x0A ! j) = Some t"
    by (auto simp: parseRevolutCSV_rows map_filter_def)
  then show ?thesis
    by (auto simp: revolut_row_def Let_def isNaN_def Math_abs_nonneg split: if_splits)
qed

text \<open>
  C1: the Millennium extractor takes the credit column as it is when the debit is
  not positive. For the row \<open>05-01-2024;;Refund;;-5,00\<close> it produces a transaction
  of type Income with the amount \<open>-5\<close>, which is not \<open>>= 0\<close>.
\<close>

theorem millennium_negative_amount:
  "parseMillenniumCSV (still_clock 0) (millennium_header @ [CHR 0x0A] @ refund_row) =
     [\<lparr>tx_id = ''mil-1-0'', date = LocalDate 2024 0 5, description = ''Refund'',
       amount = Fin (- 5), category = Other, source = Millennium, tx_type = TIncome,
       ignored = None\<rparr>]
   \<and> \<not> js_ge (Fin (- 5)) (Fin 0)"
  by (simp add: parseMillenniumCSV_two_lines no_LF_samples millennium_row_refund
      still_clock_def string_of_int_0 string_of_nat_Suc_0 js_ge_def)

text \<open>
  C4 as stated fails: the row \<open>05-01-2024;;X;abc;5,00\<close> has a date and a credit
  field that parses as the number 5, and is skipped all the same.
\<close>

theorem millennium_bad_debit_skipped:
  "split bad_debit_row CHR '';'' ! 0 \<noteq> []
   \<and> parseFloat (or_zero (replace_first CHR '','' CHR ''.'' (split bad_debit_row CHR '';'' ! 4)))
       = Fin 5
   \<and> parseMillenniumCSV (still_clock 0) (millennium_header @ [CHR 0x0A] @ bad_debit_row) = []"
proof -
  have "split bad_debit_row CHR '';'' ! 0 \<noteq> []"
    by (simp add: bad_debit_row_def)
  moreover have "parseFloat (or_zero (replace_first CHR '','' CHR ''.''
      (split bad_debit_row CHR '';'' ! 4))) = Fin 5"
    by (simp add: bad_debit_row_def num_defs row_defs)
  moreover have "parseMillenniumCSV (still_clock 0)
      (millennium_header @ [CHR 0x0A] @ bad_debit_row) = []"
    by (simp add: parseMillenniumCSV_two_lines no_LF_samples millennium_row_bad_debit)
  ultimately show ?thesis by blast
qed

lemma js_add_NaN_iff:
  "js_add x y = NaN \<longleftrightarrow>
     x = NaN \<or> y = NaN \<or> (x = PosInf \<and> y = NegInf) \<or> (x = NegInf \<and> y = PosInf)"
  by (cases x; cases y) (simp_all add: js_round_def)

text \<open>
  C4, amended: the output of \<open>parseMillenniumCSV\<close> is made of the lines from line 1
  on that are not skipped, and a line is skipped if and only if it has fewer than 5
  columns, or its date field (column 0) is empty, or the debit field (column 3) or
  the credit field (column 4) fails to parse as a number, or the two parse to
  infinities of opposite sign (the sum is NaN in each of these cases). A field is
  parsed with its first comma turned into a point, and an empty field as \<open>0\<close>.
\<close>

theorem millennium_row_skipped_iff:
  "parseMillenniumCSV now text =
     List.map_filter (\<lambda>j. millennium_row now j (split text CHR 0x0A ! j))
       [1..<length (split text CHR 0x0A)]
   \<and> (millennium_row now i line = None \<longleftrightarrow>
        (let cols = split line CHR '';'';
             debit = parseFloat (or_zero (replace_first CHR '','' CHR ''.'' (cols ! 3)));
             credit = parseFloat (or_zero (replace_first CHR '','' CHR ''.'' (cols ! 4)))
         in length cols < 5 \<or> cols ! 0 = [] \<or> debit = NaN \<or> credit = NaN
            \<or> (debit = PosInf \<and> credit = NegInf) \<or> (debit = NegInf \<and> credit = PosInf)))"
proof -
  have "millennium_row now i line = None \<longleftrightarrow>
        (let cols = split line CHR '';'';
             debit = parseFloat (or_zero (replace_first CHR '','' CHR ''.'' (cols ! 3)));
             credit = parseFloat (or_zero (replace_first CHR '','' CHR ''.'' (cols ! 4)))
         in length cols < 5 \<or> cols ! 0 = [] \<or> debit = NaN \<or> credit = NaN
            \<or> (debit = PosInf \<and> credit = NegInf) \<or> (debit = NegInf \<and> credit = PosInf))"
    unfolding millennium_row_def Let_def isNaN_def js_add_NaN_iff
    by (simp split: if_splits)
  then show ?thesis
    using parseMillenniumCSV_rows by blast
qed

theorem millennium_row_skipped_iff_witness:
  "millennium_row (still_clock 0) 1 bad_debit_row = None
   \<and> parseFloat (or_zero (replace_first CHR '','' CHR ''.'' (split bad_debit_row CHR '';'' ! 3)))
       = NaN
   \<and> millennium_row (still_clock 0) 1 pingo_row \<noteq> None"
proof -
  have d: "parseFloat (or_zero (replace_first CHR '','' CHR ''.''
      (split bad_debit_row CHR '';'' ! 3))) = NaN"
    by (simp add: bad_debit_row_def num_defs row_defs)
  have "millennium_row (still_clock 0) 1 bad_debit_row = None"
    using millennium_row_skipped_iff [of "still_clock 0" "[]" 1 bad_debit_row] d
    by (simp add: Let_def)
  moreover have "millennium_row (still_clock 0) 1 pingo_row \<noteq> None"
    using millennium_row_skipped_iff [of "still_clock 0" "[]" 1 pingo_row]
    by (simp add: Let_def pingo_row_def num_defs row_defs)
  ultimately show ?thesis using d by blast
qed

text \<open>
  C5 as stated fails: in the row \<open>CARD_PAYMENT,Current,2024-01-05,,Desc,-7.50\<close>
  column 3 is empty, and the date is built from column 2 (\<open>2024-01-05\<close>), not from
  column 4 (\<open>Desc\<close>).
\<close>

theorem revolut_date_not_from_column_4:
  "parseRevolutCSV (still_clock 0) (revolut_header @ [CHR 0x0A] @ pending_row) = [pending_tx]
   \<and> split pending_row CHR '','' ! 3 = []
   \<and> split pending_row CHR '','' ! 2 = ''2024-01-05''
   \<and> split pending_row CHR '','' ! 4 = ''Desc''
   \<and> date pending_tx = DateOfString ''2024-01-05''
   \<and> date pending_tx \<noteq> DateOfString (split pending_row CHR '','' ! 4)"
proof -
  have "parseRevolutCSV (still_clock 0) (revolut_header @ [CHR 0x0A] @ pending_row) = [pending_tx]"
    by (simp add: parseRevolutCSV_two_lines no_LF_samples revolut_row_pending
        still_clock_def string_of_int_0 string_of_nat_Suc_0 pending_tx_def)
  moreover have "split pending_row CHR '','' = 
      [''CARD_PAYMENT'', ''Current'', ''2024-01-05'', [], ''Desc'', ''-7.50'']"
    by (simp add: pending_row_def)
  ultimately show ?thesis
    by (simp add: pending_tx_def)
qed

text \<open>
  C5, amended: every transaction that \<open>parseRevolutCSV\<close> produces comes from a line
  after the first with at least 6 columns, and its date is built from column 3 of
  that line, or from column 2 when column 3 is empty.
\<close>

theorem revolut_date_column:
  assumes "t \<in> set (parseRevolutCSV now text)"
  shows "\<exists>i cols. 1 \<le> i \<and> i < length (split text CHR 0x0A)
           \<and> cols = split (split text CHR 0x0A ! i) CHR '',''
           \<and> 6 \<le> length cols
           \<and> revolut_row now i (split text CHR 0x0A ! i) = Some t
           \<and> date t = DateOfString (if cols ! 3 \<noteq> [] then cols ! 3 else cols ! 2)"
proof -
  from assms obtain i where i: "1 \<le> i" "i < length (split text CHR 0x0A)"
    and row: "revolut_row now i (split text CHR 0x0A ! i) = Some t"
    by (auto simp: parseRevolutCSV_rows map_filter_def)
  let ?cols = "split (split text CHR 0x0A ! i) CHR '',''"
  from row have "6 \<le> length ?cols"
    by (auto simp: revolut_row_def Let_def split: if_splits)
  moreover from row have "date t = DateOfString (if ?cols ! 3 \<noteq> [] then ?cols ! 3 else ?cols ! 2)"
    by (auto simp: revolut_row_def Let_def split: if_splits)
  ultimately show ?thesis using i row by blast
qed

theorem revolut_date_column_witness:
  "pending_tx \<in> set (parseRevolutCSV (still_clock 0) (revolut_header @ [CHR 0x0A] @ pending_row))
   \<and> (\<exists>i cols. 1 \<le> i
         \<and> i < length (split (revolut_header @ [CHR 0x0A] @ pending_row) CHR 0x0A)
         \<and> cols = split (split (revolut_header @ [CHR 0x0A] @ pending_row) CHR 0x0A ! i) CHR '',''
         \<and> 6 \<le> length cols
         \<and> revolut_row (still_clock 0) i
              (split (revolut_header @ [CHR 0x0A] @ pending_row) CHR 0x0A ! i) = Some pending_tx
         \<and> date pending_tx = DateOfString (if cols ! 3 \<noteq> [] then cols ! 3 else cols ! 2))"
proof -
  have h: "pending_tx \<in> set (parseRevolutCSV (still_clock 0)
      (revolut_header @ [CHR 0x0A] @ pending_row))"
    by (simp add: parseRevolutCSV_two_lines no_LF_samples revolut_row_pending
        still_clock_def string_of_int_0 string_of_nat_Suc_0 pending_tx_def)
  from revolut_date_column [OF h] h show ?thesis by blast
qed

text \<open>
  C8: after any header line, the line \<open>05-01-2024;;Pingo Doce;12,50;\<close> gives one
  transaction, dated 5 January 2024 (month index 0), with description
  \<open>Pingo Doce\<close>, amount 12.50, type Expense and category Other; the rule engine with
  no rules then gives it the category Food, and \<open>pingo doce\<close> is the first keyword of
  the default map that occurs in the lower-cased description.
\<close>

theorem pingo_doce_scenario:
  assumes "CHR 0x0A \<notin> set header"
  shows "parseMillenniumCSV now (header @ [CHR 0x0A] @ ''05-01-2024;;Pingo Doce;12,50;'') =
           [\<lparr>tx_id = ''mil-1-'' @ string_of_int (now 1), date = LocalDate 2024 0 5,
             description = ''Pingo Doce'', amount = Fin 12.5, category = Other,
             source = Millennium, tx_type = TExpense, ignored = None\<rparr>]
       \<and> applyRulesToTransaction
           \<lparr>tx_id = ''mil-1-'' @ string_of_int (now 1), date = LocalDate 2024 0 5,
            description = ''Pingo Doce'', amount = Fin 12.5, category = Other,
            source = Millennium, tx_type = TExpense, ignored = None\<rparr> [] =
           \<lparr>tx_id = ''mil-1-'' @ string_of_int (now 1), date = LocalDate 2024 0 5,
            description = ''Pingo Doce'', amount = Fin 12.5, category = Food,
            source = Millennium, tx_type = TExpense, ignored = None\<rparr>
       \<and> find (\<lambda>e. includesStr (toLowerCase ''Pingo Doce'') (fst e)) DEFAULT_CATEGORY_MAP =
           Some (''pingo doce'', Food)"
proof -
  have "parseMillenniumCSV now (header @ CHR 0x0A # pingo_row) =
      [pingo_tx (''mil-1-'' @ string_of_int (now 1))]"
    using assms
    by (simp add: parseMillenniumCSV_two_lines no_LF_samples millennium_row_pingo
        string_of_nat_Suc_0)
  moreover have "applyRulesToTransaction (pingo_tx ident) [] = (pingo_tx ident)\<lparr>category := Food\<rparr>"
    for ident
    by (simp add: applyRulesToTransaction_def pingo_tx_def DEFAULT_CATEGORY_MAP_def char_eval)
  moreover have "find (\<lambda>e. includesStr (toLowerCase ''Pingo Doce'') (fst e))
      DEFAULT_CATEGORY_MAP = Some (''pingo doce'', Food)"
    by (simp add: DEFAULT_CATEGORY_MAP_def char_eval)
  ultimately show ?thesis
    by (simp add: pingo_tx_def pingo_row_def)
qed

theorem pingo_doce_scenario_witness:
  "CHR 0x0A \<notin> set millennium_header
   \<and> map category (parseMillenniumCSV (still_clock 0)
        (millennium_header @ [CHR 0x0A] @ ''05-01-2024;;Pingo Doce;12,50;'')) = [Other]
   \<and> map (\<lambda>t. category (applyRulesToTransaction t []))
        (parseMillenniumCSV (still_clock 0)
          (millennium_header @ [CHR 0x0A] @ ''05-01-2024;;Pingo Doce;12,50;'')) = [Food]"
proof -
  have h: "CHR 0x0A \<notin> set millennium_header"
    by (rule no_LF_samples)
  from pingo_doce_scenario [OF h, of "still_clock 0"] h show ?thesis
    by simp
qed

text \<open>
  C10: the first line of the text is never a row. Two texts that differ in their
  first line only give the same transactions, and the first line taken alone gives
  none, for both extractors.
\<close>

theorem first_line_never_parsed:
  "(tl (split text CHR 0x0A) = tl (split text' CHR 0x0A) \<longrightarrow>
      parseRevolutCSV now text = parseRevolutCSV now text'
      \<and> parseMillenniumCSV now text = parseMillenniumCSV now text')
   \<and> parseRevolutCSV now (hd (split text CHR 0x0A)) = []
   \<and> parseMillenniumCSV now (hd (split text CHR 0x0A)) = []"
proof -
  have rev: "parseRevolutCSV now s =
      List.map_filter (\<lambda>j. revolut_row now (Suc j) (tl (split s CHR 0x0A) ! j))
        [0..<length (tl (split s CHR 0x0A))]" for s
    unfolding parseRevolutCSV_rows by (rule rows_after_first) (rule split_not_Nil)
  have mil: "parseMillenniumCSV now s =
      List.map_filter (\<lambda>j. millennium_row now (Suc j) (tl (split s CHR 0x0A) ! j))
        [0..<length (tl (split s CHR 0x0A))]" for s
    unfolding parseMillenniumCSV_rows by (rule rows_after_first) (rule split_not_Nil)
  have first: "CHR 0x0A \<notin> set (hd (split s CHR 0x0A))" for s
    by (induction s) (auto split: list.splits)
  have one: "split (hd (split text CHR 0x0A)) CHR 0x0A = [hd (split text CHR 0x0A)]"
    using first by (rule split_no_sep)
  have "parseRevolutCSV now (hd (split text CHR 0x0A)) = []"
    by (simp add: rev one map_filter_simps)
  moreover have "parseMillenniumCSV now (hd (split text CHR 0x0A)) = []"
    by (simp add: mil one map_filter_simps)
  moreover have "tl (split text CHR 0x0A) = tl (split text' CHR 0x0A) \<longrightarrow>
      parseRevolutCSV now text = parseRevolutCSV now text'
      \<and> parseMillenniumCSV now text = parseMillenniumCSV now text'"
    by (simp add: rev mil)
  ultimately show ?thesis by blast
qed

theorem first_line_never_parsed_witness:
  "tl (split (first_row @ [CHR 0x0A] @ second_row) CHR 0x0A) =
     tl (split (revolut_header @ [CHR 0x0A] @ second_row) CHR 0x0A)
   \<and> hd (split (first_row @ [CHR 0x0A] @ second_row) CHR 0x0A) = first_row
   \<and> revolut_row (still_clock 0) 0 first_row \<noteq> None
   \<and> parseRevolutCSV (still_clock 0) (first_row @ [CHR 0x0A] @ second_row) = [second_tx]
   \<and> parseRevolutCSV (still_clock 0) first_row = []"
proof -
  have w: "revolut_row (still_clock 0) 0 first_row \<noteq> None"
    by (simp add: revolut_row_first)
  have a: "split (first_row @ [CHR 0x0A] @ second_row) CHR 0x0A = [first_row, second_row]"
    by (simp add: split_append_sep split_no_sep no_LF_samples)
  have b: "split (revolut_header @ [CHR 0x0A] @ second_row) CHR 0x0A = [revolut_header, second_row]"
    by (simp add: split_append_sep split_no_sep no_LF_samples)
  have h: "tl (split (first_row @ [CHR 0x0A] @ second_row) CHR 0x0A) =
      tl (split (revolut_header @ [CHR 0x0A] @ second_row) CHR 0x0A)"
    by (simp only: a b list.sel)
  have c: "parseRevolutCSV (still_clock 0) (revolut_header @ [CHR 0x0A] @ second_row) = [second_tx]"
    by (simp add: parseRevolutCSV_two_lines no_LF_samples revolut_row_second
        still_clock_def string_of_int_0 string_of_nat_Suc_0 second_tx_def)
  have d: "parseRevolutCSV (still_clock 0) (first_row @ [CHR 0x0A] @ second_row) = [second_tx]"
    using first_line_never_parsed [of "first_row @ [CHR 0x0A] @ second_row"
        "revolut_header @ [CHR 0x0A] @ second_row" "still_clock 0"] h c
    by simp
  have e: "parseRevolutCSV (still_clock 0) first_row = []"
    using first_line_never_parsed [of "first_row @ [CHR 0x0A] @ second_row"
        "revolut_header @ [CHR 0x0A] @ second_row" "still_clock 0"] a
    by simp
  from h a d e w show ?thesis by simp
qed

end
